theory Spec2Isabelle
  imports Main "HOL-Library.Sublist"
begin

section \<open>Core types (types/index.ts)\<close>

datatype ErrorSeverity = LOW | MEDIUM | HIGH | CRITICAL

datatype ErrorCategory =
  NETWORK | VALIDATION | AUTHENTICATION | AUTHORIZATION | SERVER | CLIENT | UNKNOWN

text \<open>
  The type \<^verbatim>\<open>string | number\<close> of the \<^verbatim>\<open>code\<close> field. Numbers are
  integers here: the codes of this program are HTTP statuses.
\<close>

datatype code = Num int | Str string

text \<open>
  A value of type \<^verbatim>\<open>unknown\<close> that is neither an \<^verbatim>\<open>Error\<close> object nor
  inspected by the program: the payload \<^verbatim>\<open>data\<close>, and whatever else may be thrown.
  \<open>JUndefined\<close> also stands for an absent optional field.
\<close>

datatype jsvalue =
  JUndefined | JNull | JBool bool | JNumber int | JString string
  | JObject "(string \<times> jsvalue) list"

text \<open>
  What the program reads from its surroundings at the moment of a call:
  \<^verbatim>\<open>process.env.NODE_ENV\<close>, the string \<^verbatim>\<open>new Date().toISOString()\<close> yields,
  and the stack trace the engine attaches to an error object created now.
\<close>

record runtime =
  NODE_ENV :: "string option"
  isoNow :: string
  stackTrace :: "string option"

definition production :: "runtime \<Rightarrow> bool" where
  "production rt = (NODE_ENV rt = Some ''production'')"

section \<open>JavaScript helpers\<close>

text \<open>A default parameter value: it replaces \<^verbatim>\<open>undefined\<close> only.\<close>

fun dflt :: "'a option \<Rightarrow> 'a \<Rightarrow> 'a" where
  "dflt None d = d"
| "dflt (Some x) d = x"

text \<open>\<^verbatim>\<open>s || d\<close> on an optional string: the empty string is falsy too.\<close>

fun strOr :: "string option \<Rightarrow> string \<Rightarrow> string" where
  "strOr None d = d"
| "strOr (Some s) d = (if s = [] then d else s)"

text \<open>\<^verbatim>\<open>code || d\<close>: \<^verbatim>\<open>undefined\<close>, \<^verbatim>\<open>0\<close> and \<^verbatim>\<open>''\<close> are falsy.\<close>

fun codeOr :: "code option \<Rightarrow> code \<Rightarrow> code" where
  "codeOr None d = d"
| "codeOr (Some (Num n)) d = (if n = 0 then d else Num n)"
| "codeOr (Some (Str s)) d = (if s = [] then d else Str s)"

text \<open>Decimal rendering of an integer, as a template literal prints it.\<close>

fun showNat :: "nat \<Rightarrow> string" where
  "showNat n =
     (if n < 10 then [''0123456789'' ! n]
      else showNat (n div 10) @ [''0123456789'' ! (n mod 10)])"

declare showNat.simps [simp del]

definition showInt :: "int \<Rightarrow> string" where
  "showInt i = (if i < 0 then CHR ''-'' # showNat (nat (- i)) else showNat (nat i))"

text \<open>
  \<^verbatim>\<open>String.prototype.toLowerCase\<close> on the letters A to Z; every other character is
  kept (case mappings outside ASCII are not modelled).
\<close>

definition lowerChar :: "char \<Rightarrow> char" where
  "lowerChar c =
     (let n = (of_char c :: nat) in if 65 \<le> n \<and> n \<le> 90 then char_of (n + 32) else c)"

definition toLowerCase :: "string \<Rightarrow> string" where
  "toLowerCase s = map lowerChar s"

text \<open>\<^verbatim>\<open>s.includes(p)\<close>: \<open>p\<close> occurs in \<open>s\<close> as a contiguous run.\<close>

fun strIncludes :: "string \<Rightarrow> string \<Rightarrow> bool" where
  "strIncludes [] p = (p = [])"
| "strIncludes (c # cs) p = (prefix p (c # cs) \<or> strIncludes cs p)"

section \<open>The error classes (errors/classes)\<close>

text \<open>
  The class an error object was created from. It selects the \<^verbatim>\<open>getUserMessage\<close>
  that runs, and carries the fields only that class has: \<^verbatim>\<open>fieldErrors\<close> (in the
  order \<^verbatim>\<open>Object.keys\<close> lists them) and \<^verbatim>\<open>retryAfter\<close>.
\<close>

datatype ErrorClass =
  BaseErrorC
  | NetworkErrorC
  | TimeoutErrorC
  | AuthenticationErrorC
  | AuthorizationErrorC
  | SessionExpiredErrorC
  | ValidationErrorC "(string \<times> string list) list"
  | ServerErrorC
  | NotFoundErrorC
  | RateLimitErrorC "int option"

fun className :: "ErrorClass \<Rightarrow> string" where
  "className BaseErrorC = ''BaseError''"
| "className NetworkErrorC = ''NetworkError''"
| "className TimeoutErrorC = ''TimeoutError''"
| "className AuthenticationErrorC = ''AuthenticationError''"
| "className AuthorizationErrorC = ''AuthorizationError''"
| "className SessionExpiredErrorC = ''SessionExpiredError''"
| "className (ValidationErrorC fe) = ''ValidationError''"
| "className ServerErrorC = ''ServerError''"
| "className NotFoundErrorC = ''NotFoundError''"
| "className (RateLimitErrorC ra) = ''RateLimitError''"

text \<open>The native \<^verbatim>\<open>Error\<close> object, as far as the program reads it.\<close>

record JSError =
  message :: string
  stack :: "string option"

record BaseError = JSError +
  name :: string
  cls :: ErrorClass
  category :: ErrorCategory
  severity :: ErrorSeverity
  timestamp :: string
  code :: "code option"
  data :: jsvalue
  retry :: "bool option"

text \<open>
  The constructor of \<^verbatim>\<open>BaseError\<close>; \<open>c\<close> is the class being instantiated
  (\<^verbatim>\<open>this.constructor\<close>).
\<close>

definition newBaseError ::
  "runtime \<Rightarrow> ErrorClass \<Rightarrow> string \<Rightarrow> ErrorCategory option \<Rightarrow> ErrorSeverity option \<Rightarrow>
   code option \<Rightarrow> jsvalue \<Rightarrow> bool option \<Rightarrow> BaseError" where
  "newBaseError rt c msg cat sev cd dat rtr =
     \<lparr> JSError.message = msg,
       stack = stackTrace rt,
       name = className c,
       cls = c,
       BaseError.category = dflt cat UNKNOWN,
       severity = dflt sev MEDIUM,
       timestamp = isoNow rt,
       code = cd,
       data = dat,
       retry = Some (dflt rtr False) \<rparr>"

definition newNetworkErrorAs ::
  "ErrorClass \<Rightarrow> runtime \<Rightarrow> string option \<Rightarrow> code option \<Rightarrow> jsvalue \<Rightarrow> bool option \<Rightarrow> BaseError" where
  "newNetworkErrorAs c rt msg cd dat rtr =
     newBaseError rt c (dflt msg ''Network connection issue'') (Some NETWORK) (Some HIGH)
       cd dat (Some (dflt rtr True))"

definition newNetworkError ::
  "runtime \<Rightarrow> string option \<Rightarrow> code option \<Rightarrow> jsvalue \<Rightarrow> bool option \<Rightarrow> BaseError" where
  "newNetworkError = newNetworkErrorAs NetworkErrorC"

definition newTimeoutError ::
  "runtime \<Rightarrow> string option \<Rightarrow> code option \<Rightarrow> jsvalue \<Rightarrow> bool option \<Rightarrow> BaseError" where
  "newTimeoutError rt msg cd dat rtr =
     (newNetworkErrorAs TimeoutErrorC rt (Some (dflt msg ''Request timed out'')) cd dat
        (Some (dflt rtr True)))
     \<lparr> BaseError.severity := MEDIUM \<rparr>"

definition newAuthenticationErrorAs ::
  "ErrorClass \<Rightarrow> runtime \<Rightarrow> string option \<Rightarrow> code option \<Rightarrow> jsvalue \<Rightarrow> bool option \<Rightarrow> BaseError" where
  "newAuthenticationErrorAs c rt msg cd dat rtr =
     newBaseError rt c (dflt msg ''Authentication failed'') (Some AUTHENTICATION) (Some HIGH)
       cd dat (Some (dflt rtr True))"

definition newAuthenticationError ::
  "runtime \<Rightarrow> string option \<Rightarrow> code option \<Rightarrow> jsvalue \<Rightarrow> bool option \<Rightarrow> BaseError" where
  "newAuthenticationError = newAuthenticationErrorAs AuthenticationErrorC"

definition newSessionExpiredError ::
  "runtime \<Rightarrow> string option \<Rightarrow> code option \<Rightarrow> jsvalue \<Rightarrow> BaseError" where
  "newSessionExpiredError rt msg cd dat =
     newAuthenticationErrorAs SessionExpiredErrorC rt (Some (dflt msg ''Session expired'')) cd dat
       (Some True)"

definition newAuthorizationError ::
  "runtime \<Rightarrow> string option \<Rightarrow> code option \<Rightarrow> jsvalue \<Rightarrow> bool option \<Rightarrow> BaseError" where
  "newAuthorizationError rt msg cd dat rtr =
     newBaseError rt AuthorizationErrorC (dflt msg ''Not authorized'') (Some AUTHORIZATION)
       (Some HIGH) cd dat (Some (dflt rtr False))"

definition newValidationError ::
  "runtime \<Rightarrow> string option \<Rightarrow> (string \<times> string list) list option \<Rightarrow> code option \<Rightarrow>
   jsvalue \<Rightarrow> bool option \<Rightarrow> BaseError" where
  "newValidationError rt msg fieldErrors cd dat rtr =
     newBaseError rt (ValidationErrorC (dflt fieldErrors [])) (dflt msg ''Validation failed'')
       (Some VALIDATION) (Some MEDIUM) cd dat (Some (dflt rtr True))"

definition newServerError ::
  "runtime \<Rightarrow> string option \<Rightarrow> code option \<Rightarrow> jsvalue \<Rightarrow> bool option \<Rightarrow> BaseError" where
  "newServerError rt msg cd dat rtr =
     newBaseError rt ServerErrorC (dflt msg ''Server error occurred'') (Some SERVER) (Some HIGH)
       cd dat (Some (dflt rtr True))"

definition newNotFoundError ::
  "runtime \<Rightarrow> string option \<Rightarrow> code option \<Rightarrow> jsvalue \<Rightarrow> bool option \<Rightarrow> BaseError" where
  "newNotFoundError rt msg cd dat rtr =
     newBaseError rt NotFoundErrorC (dflt msg ''Resource not found'') (Some SERVER) (Some MEDIUM)
       (Some (codeOr cd (Num 404))) dat (Some (dflt rtr False))"

definition newRateLimitError ::
  "runtime \<Rightarrow> string option \<Rightarrow> int option \<Rightarrow> code option \<Rightarrow> jsvalue \<Rightarrow> BaseError" where
  "newRateLimitError rt msg retryAfter cd dat =
     newBaseError rt (RateLimitErrorC retryAfter) (dflt msg ''Rate limit exceeded'') (Some SERVER)
       (Some MEDIUM) (Some (codeOr cd (Num 429))) dat (Some True)"

text \<open>
  \<^verbatim>\<open>getUserMessage\<close>, dispatched on the class. For a validation error the first
  message of the first field is used, and the error's own message when that one is
  missing or empty.
\<close>

fun firstFieldError :: "(string \<times> string list) list \<Rightarrow> string option" where
  "firstFieldError [] = None"
| "firstFieldError ((field, []) # rest) = None"
| "firstFieldError ((field, e # es) # rest) = Some e"

definition getUserMessage :: "BaseError \<Rightarrow> string" where
  "getUserMessage e =
     (case cls e of
        BaseErrorC \<Rightarrow> JSError.message e
      | NetworkErrorC \<Rightarrow>
          ''There was a problem connecting to the server. Please check your internet connection and try again.''
      | TimeoutErrorC \<Rightarrow>
          ''The request is taking longer than expected. Please try again later.''
      | AuthenticationErrorC \<Rightarrow>
          ''Authentication failed. Please check your credentials and try again.''
      | AuthorizationErrorC \<Rightarrow> ''You do not have permission to access this resource.''
      | SessionExpiredErrorC \<Rightarrow> ''Your session has expired. Please log in again.''
      | ValidationErrorC fieldErrors \<Rightarrow>
          (if fieldErrors \<noteq> [] then strOr (firstFieldError fieldErrors) (JSError.message e)
           else ''Please review the form for errors and try again.'')
      | ServerErrorC \<Rightarrow> ''An unexpected server error occurred. Our team has been notified.''
      | NotFoundErrorC \<Rightarrow> ''The requested resource was not found.''
      | RateLimitErrorC retryAfter \<Rightarrow>
          (case retryAfter of
             None \<Rightarrow> ''Request limit reached. Please try again later.''
           | Some n \<Rightarrow>
               if n = 0 then ''Request limit reached. Please try again later.''
               else ''Request limit reached. Please try again in '' @ showInt n @ '' seconds.''))"

definition canRetry :: "BaseError \<Rightarrow> bool" where
  "canRetry e = (BaseError.retry e = Some True)"

section \<open>The error manager (errors/ErrorManager.ts)\<close>

record ErrorResponse =
  message :: string
  severity :: ErrorSeverity
  category :: ErrorCategory
  code :: "code option"
  timestamp :: string
  data :: jsvalue
  retry :: "bool option"
  stack :: "string option"

text \<open>Whatever can be thrown: one of the typed errors, a native error, any other value.\<close>

datatype raw = Typed BaseError | Plain JSError | Thrown jsvalue

definition formatErrorResponse :: "runtime \<Rightarrow> BaseError \<Rightarrow> ErrorResponse" where
  "formatErrorResponse rt error =
     \<lparr> message = getUserMessage error,
       severity = BaseError.severity error,
       category = BaseError.category error,
       code = BaseError.code error,
       timestamp = BaseError.timestamp error,
       data = BaseError.data error,
       retry = BaseError.retry error,
       stack = (if \<not> production rt then JSError.stack error else None) \<rparr>"

definition classify :: "string \<Rightarrow> ErrorCategory \<times> ErrorSeverity \<times> bool" where
  "classify lowerMessage =
     (if strIncludes lowerMessage ''network'' \<or> strIncludes lowerMessage ''fetch''
          \<or> strIncludes lowerMessage ''connection''
      then (NETWORK, HIGH, True)
      else if strIncludes lowerMessage ''timeout'' \<or> strIncludes lowerMessage ''timed out''
      then (NETWORK, MEDIUM, True)
      else if strIncludes lowerMessage ''auth'' \<or> strIncludes lowerMessage ''login''
          \<or> strIncludes lowerMessage ''permission''
      then (AUTHENTICATION, HIGH, False)
      else if strIncludes lowerMessage ''validate'' \<or> strIncludes lowerMessage ''invalid''
      then (VALIDATION, LOW, True)
      else if strIncludes lowerMessage ''server'' \<or> strIncludes lowerMessage ''500''
      then (SERVER, HIGH, True)
      else (UNKNOWN, MEDIUM, True))"

definition handleStandardError :: "runtime \<Rightarrow> JSError \<Rightarrow> ErrorResponse" where
  "handleStandardError rt error =
     (case classify (toLowerCase (JSError.message error)) of
        (cat, sev, rtr) \<Rightarrow>
          \<lparr> message = JSError.message error,
            severity = sev,
            category = cat,
            code = None,
            timestamp = isoNow rt,
            data = JUndefined,
            retry = Some rtr,
            stack = (if \<not> production rt then JSError.stack error else None) \<rparr>)"

definition handleStringError :: "runtime \<Rightarrow> string \<Rightarrow> ErrorResponse" where
  "handleStringError rt error =
     \<lparr> message = error,
       severity = MEDIUM,
       category = UNKNOWN,
       code = None,
       timestamp = isoNow rt,
       data = JUndefined,
       retry = Some True,
       stack = None \<rparr>"

definition handleUnknownError :: "runtime \<Rightarrow> jsvalue \<Rightarrow> ErrorResponse" where
  "handleUnknownError rt error =
     \<lparr> message = ''An unknown error occurred'',
       severity = MEDIUM,
       category = UNKNOWN,
       code = None,
       timestamp = isoNow rt,
       data = error,
       retry = Some True,
       stack = None \<rparr>"

fun handle :: "runtime \<Rightarrow> raw \<Rightarrow> ErrorResponse" where
  "handle rt (Typed error) = formatErrorResponse rt error"
| "handle rt (Plain error) = handleStandardError rt error"
| "handle rt (Thrown (JString error)) = handleStringError rt error"
| "handle rt (Thrown error) = handleUnknownError rt error"

definition createFromHttpStatus ::
  "runtime \<Rightarrow> int \<Rightarrow> string option \<Rightarrow> jsvalue \<Rightarrow> BaseError" where
  "createFromHttpStatus rt status msg dat =
     (if status = 400 then
        newValidationError rt (Some (strOr msg ''Bad Request'')) (Some []) (Some (Num status)) dat None
      else if status = 401 then
        newAuthenticationError rt (Some (strOr msg ''Unauthorized'')) (Some (Num status)) dat None
      else if status = 403 then
        newAuthorizationError rt (Some (strOr msg ''Forbidden'')) (Some (Num status)) dat None
      else if status = 404 then
        newNotFoundError rt (Some (strOr msg ''Not Found'')) (Some (Num status)) dat None
      else if status = 429 then
        newRateLimitError rt (Some (strOr msg ''Too Many Requests'')) None (Some (Num status)) dat
      else if status \<ge> 500 then
        newServerError rt (Some (strOr msg ''Server Error'')) (Some (Num status)) dat None
      else
        newBaseError rt BaseErrorC (strOr msg (''HTTP Error '' @ showInt status)) (Some UNKNOWN)
          (Some MEDIUM) (Some (Num status)) dat None)"

definition shouldReport :: "runtime \<Rightarrow> ErrorResponse \<Rightarrow> bool" where
  "shouldReport rt error =
     (if production rt \<and> category error = VALIDATION then False
      else if production rt \<and> code error = Some (Num 404) then False
      else if severity error = HIGH \<or> severity error = CRITICAL then True
      else if severity error = MEDIUM \<and> category error \<noteq> VALIDATION then True
      else False)"

section \<open>Retry with backoff (utils/errorDecorator.ts)\<close>

text \<open>
  The options object; an absent field takes its default. Delays and the backoff factor
  are integers here.
\<close>

record 'e RetryOptions =
  maxRetries :: "int option"
  initialDelayMs :: "int option"
  maxDelayMs :: "int option"
  backoffFactor :: "int option"
  shouldRetry :: "('e \<Rightarrow> int \<Rightarrow> bool) option"

text \<open>
  The operation \<^verbatim>\<open>fn\<close> acts on a world \<open>'s\<close>: called in a world it fails
  (\<open>Inl\<close>, the rejection) or succeeds (\<open>Inr\<close>) and leaves a new world. A run of
  \<^verbatim>\<open>retryWithBackoff\<close> ends with what it returns or throws, the world it leaves,
  how many times it called the operation and the delays it waited for, in order.
\<close>

record ('e, 'a, 's) RetryRun =
  outcome :: "'e + 'a"
  world :: 's
  invocations :: nat
  delays :: "int list"

function retryLoop ::
  "int \<Rightarrow> int \<Rightarrow> int \<Rightarrow> int \<Rightarrow> ('e \<Rightarrow> int \<Rightarrow> bool) \<Rightarrow> ('s \<Rightarrow> ('e + 'a) \<times> 's) \<Rightarrow>
   int \<Rightarrow> 's \<Rightarrow> nat \<Rightarrow> int list \<Rightarrow> ('e, 'a, 's) RetryRun" where
  "retryLoop maxR initD maxD factor should fn attempts s calls slept =
     (case fn s of
        (Inr result, s') \<Rightarrow>
          \<lparr> outcome = Inr result, world = s', invocations = calls + 1, delays = slept \<rparr>
      | (Inl error, s') \<Rightarrow>
          (if attempts + 1 \<ge> maxR \<or> \<not> should error (attempts + 1)
           then \<lparr> outcome = Inl error, world = s', invocations = calls + 1, delays = slept \<rparr>
           else retryLoop maxR initD maxD factor should fn (attempts + 1) s' (calls + 1)
                  (slept @ [min (initD * factor ^ nat (attempts + 1 - 1)) maxD])))"
  by pat_completeness auto
termination
  by (relation "measure (\<lambda>(maxR, initD, maxD, factor, should, fn, attempts, s, calls, slept).
        nat (maxR - attempts))") auto

declare retryLoop.simps [simp del]

definition retryWithBackoff ::
  "('s \<Rightarrow> ('e + 'a) \<times> 's) \<Rightarrow> 'e RetryOptions \<Rightarrow> 's \<Rightarrow> ('e, 'a, 's) RetryRun" where
  "retryWithBackoff fn options s =
     retryLoop (dflt (maxRetries options) 3) (dflt (initialDelayMs options) 1000)
       (dflt (maxDelayMs options) 10000) (dflt (backoffFactor options) 2)
       (dflt (shouldRetry options) (\<lambda>error attempts. True)) fn 0 s 0 []"

section \<open>The global error store (store/errorStore.ts)\<close>

record ErrorState =
  currentError :: "ErrorResponse option"
  errorHistory :: "ErrorResponse list"
  isErrorVisible :: bool

definition initialErrorState :: ErrorState where
  "initialErrorState = \<lparr> currentError = None, errorHistory = [], isErrorVisible = False \<rparr>"

definition addToHistory :: "ErrorResponse \<Rightarrow> ErrorState \<Rightarrow> ErrorState" where
  "addToHistory error st = st \<lparr> errorHistory := take 10 (error # errorHistory st) \<rparr>"

definition setError :: "ErrorResponse option \<Rightarrow> ErrorState \<Rightarrow> ErrorState" where
  "setError error st =
     (let st' = st \<lparr> currentError := error, isErrorVisible := (error \<noteq> None) \<rparr>
      in case error of None \<Rightarrow> st' | Some e \<Rightarrow> addToHistory e st')"

definition clearError :: "ErrorState \<Rightarrow> ErrorState" where
  "clearError st = st \<lparr> currentError := None, isErrorVisible := False \<rparr>"

definition showError :: "ErrorState \<Rightarrow> ErrorState" where
  "showError st = st \<lparr> isErrorVisible := True \<rparr>"

definition hideError :: "ErrorState \<Rightarrow> ErrorState" where
  "hideError st = st \<lparr> isErrorVisible := False \<rparr>"

definition clearHistory :: "ErrorState \<Rightarrow> ErrorState" where
  "clearHistory st = st \<lparr> errorHistory := [] \<rparr>"

text \<open>A sequence of \<^verbatim>\<open>setError\<close> calls, one per error of the list, in order.\<close>

definition setErrors :: "ErrorResponse list \<Rightarrow> ErrorState \<Rightarrow> ErrorState" where
  "setErrors es st = foldl (\<lambda>s e. setError (Some e) s) st es"

section \<open>The error boundary (errors/components/ErrorBoundary.tsx)\<close>

record ErrorBoundaryState =
  hasError :: bool
  error :: "ErrorResponse option"

text \<open>
  The props that decide what is rendered; \<open>'n\<close> is the type of rendered nodes. An absent
  or falsy \<^verbatim>\<open>fallback\<close> is \<open>None\<close>.
\<close>

datatype 'n Fallback = FallbackNode 'n | FallbackFn "ErrorResponse \<Rightarrow> 'n"

record 'n ErrorBoundaryProps =
  children :: 'n
  fallback :: "'n Fallback option"

text \<open>
  What \<^verbatim>\<open>render\<close> returns: a node of the caller's, or the built-in panel, which
  shows a message and a button bound to \<^verbatim>\<open>reset\<close>.
\<close>

datatype 'n Rendered = Node 'n | DefaultPanel string

definition initialBoundaryState :: ErrorBoundaryState where
  "initialBoundaryState = \<lparr> hasError = False, error = None \<rparr>"

text \<open>The state update computed when a descendant throws \<open>raw\<close> while rendering.\<close>

definition getDerivedStateFromError :: "runtime \<Rightarrow> raw \<Rightarrow> ErrorBoundaryState" where
  "getDerivedStateFromError rt raw = \<lparr> hasError = True, error = Some (handle rt raw) \<rparr>"

text \<open>
  Catching: the state \<^verbatim>\<open>getDerivedStateFromError\<close> returns is merged into the state
  of the component.
\<close>

definition catchError :: "runtime \<Rightarrow> raw \<Rightarrow> ErrorBoundaryState \<Rightarrow> ErrorBoundaryState" where
  "catchError rt raw st =
     (let derived = getDerivedStateFromError rt raw
      in st \<lparr> hasError := hasError derived, error := error derived \<rparr>)"

definition reset :: "ErrorBoundaryState \<Rightarrow> ErrorBoundaryState" where
  "reset st = st \<lparr> hasError := False, error := None \<rparr>"

definition render :: "'n ErrorBoundaryProps \<Rightarrow> ErrorBoundaryState \<Rightarrow> 'n Rendered" where
  "render props st =
     (case (hasError st, error st) of
        (True, Some e) \<Rightarrow>
          (case fallback props of
             Some (FallbackFn f) \<Rightarrow> Node (f e)
           | Some (FallbackNode n) \<Rightarrow> Node n
           | None \<Rightarrow>
               DefaultPanel (if message e = [] then ''An unexpected error occurred.'' else message e))
      | _ \<Rightarrow> Node (children props))"

section \<open>Sample values\<close>

definition devRuntime :: runtime where
  "devRuntime =
     \<lparr> NODE_ENV = Some ''development'', isoNow = ''2024-05-01T10:00:00.000Z'',
       stackTrace = Some ''Error: at demo'' \<rparr>"

definition prodRuntime :: runtime where
  "prodRuntime =
     \<lparr> NODE_ENV = Some ''production'', isoNow = ''2024-05-01T10:00:05.000Z'',
       stackTrace = Some ''Error: at demo'' \<rparr>"

definition sampleResponse :: "ErrorSeverity \<Rightarrow> ErrorCategory \<Rightarrow> code option \<Rightarrow> ErrorResponse" where
  "sampleResponse sev cat cd =
     \<lparr> message = ''Request failed'', severity = sev, category = cat, code = cd,
       timestamp = ''2024-05-01T10:00:00.000Z'', data = JUndefined, retry = Some True,
       stack = None \<rparr>"

definition laterRuntime :: runtime where
  "laterRuntime = devRuntime \<lparr> isoNow := ''2024-05-01T10:00:05.000Z'' \<rparr>"

definition sampleProps :: "string ErrorBoundaryProps" where
  "sampleProps = \<lparr> children = ''page'', fallback = None \<rparr>"

text \<open>The \<open>n\<close>-th of a family of pairwise distinct errors.\<close>

definition numbered :: "int \<Rightarrow> ErrorResponse" where
  "numbered n = sampleResponse MEDIUM SERVER (Some (Num n))"

definition elevenErrors :: "ErrorResponse list" where
  "elevenErrors =
     [numbered 1, numbered 2, numbered 3, numbered 4, numbered 5, numbered 6, numbered 7,
      numbered 8, numbered 9, numbered 10, numbered 11]"

text \<open>
  Operations on a call counter: one that always fails, reporting the number of the
  call, and one that fails until its third call (the demo page's operation).
\<close>

definition alwaysFails :: "int \<Rightarrow> (int + string) \<times> int" where
  "alwaysFails = (\<lambda>n. (Inl (n + 1), n + 1))"

definition succeedsOnThird :: "int \<Rightarrow> (int + string) \<times> int" where
  "succeedsOnThird =
     (\<lambda>n. if n + 1 < 3 then (Inl (n + 1), n + 1) else (Inr ''done'', n + 1))"

definition plainError :: "string \<Rightarrow> JSError" where
  "plainError msg = \<lparr> JSError.message = msg, stack = Some ''Error: at demo'' \<rparr>"

section \<open>Notions the properties are stated with\<close>

text \<open>
  A case-insensitive substring scan of a message: the word occurs, as a contiguous run,
  in the message put in lower case.
\<close>

definition mentions :: "string \<Rightarrow> string \<Rightarrow> bool" where
  "mentions msg w = sublist w (toLowerCase msg)"

text \<open>
  The inputs for which \<open>handle\<close> has no text to show: an empty string, a native error
  with an empty message, and a typed error with an empty message whose class shows that
  message (a plain \<open>BaseError\<close>, or a validation error whose first field has no
  message or an empty first message).
\<close>

definition blankInput :: "raw \<Rightarrow> bool" where
  "blankInput raw =
     (case raw of
        Typed e \<Rightarrow>
          JSError.message e = [] \<and>
          (case cls e of
             BaseErrorC \<Rightarrow> True
           | ValidationErrorC fieldErrors \<Rightarrow>
               fieldErrors \<noteq> [] \<and> strOr (firstFieldError fieldErrors) [] = []
           | _ \<Rightarrow> False)
      | Plain e \<Rightarrow> JSError.message e = []
      | Thrown (JString s) \<Rightarrow> s = []
      | Thrown _ \<Rightarrow> False)"

section \<open>Facts about the sample values\<close>

lemma production_prodRuntime: "production prodRuntime"
  by (simp add: production_def prodRuntime_def)

lemma production_devRuntime: "\<not> production devRuntime"
  by (simp add: production_def devRuntime_def)

lemma showInt_418: "showInt 418 = ''418''"
  by (simp add: showInt_def showNat.simps)

section \<open>Report-worthiness\<close>

text \<open>
  C1. In production mode \<open>shouldReport\<close> is false for every error whose category is
  validation or whose code is the number 404, whatever its severity. For every other
  combination of mode and error it is true when the severity is high or critical, true
  when the severity is medium and the category is not validation, and false when the
  severity is low.
\<close>

theorem shouldReport_policy:
  fixes e :: ErrorResponse
  shows "(production rt \<and> (category e = VALIDATION \<or> code e = Some (Num 404))
            \<longrightarrow> \<not> shouldReport rt e) \<and>
         (\<not> (production rt \<and> (category e = VALIDATION \<or> code e = Some (Num 404))) \<longrightarrow>
            ((severity e = HIGH \<or> severity e = CRITICAL) \<longrightarrow> shouldReport rt e) \<and>
            (severity e = MEDIUM \<and> category e \<noteq> VALIDATION \<longrightarrow> shouldReport rt e) \<and>
            (severity e = LOW \<longrightarrow> \<not> shouldReport rt e))"
  by (cases "severity e") (auto simp add: shouldReport_def)

theorem shouldReport_policy_witness:
  "\<not> shouldReport prodRuntime (sampleResponse CRITICAL VALIDATION None) \<and>
   \<not> shouldReport prodRuntime (sampleResponse HIGH SERVER (Some (Num 404))) \<and>
   shouldReport devRuntime (sampleResponse HIGH SERVER (Some (Num 404))) \<and>
   shouldReport prodRuntime (sampleResponse CRITICAL SERVER (Some (Num 500))) \<and>
   shouldReport devRuntime (sampleResponse MEDIUM NETWORK None) \<and>
   \<not> shouldReport devRuntime (sampleResponse LOW UNKNOWN None)"
  using shouldReport_policy [of prodRuntime "sampleResponse CRITICAL VALIDATION None"]
    shouldReport_policy [of prodRuntime "sampleResponse HIGH SERVER (Some (Num 404))"]
    shouldReport_policy [of devRuntime "sampleResponse HIGH SERVER (Some (Num 404))"]
    shouldReport_policy [of prodRuntime "sampleResponse CRITICAL SERVER (Some (Num 500))"]
    shouldReport_policy [of devRuntime "sampleResponse MEDIUM NETWORK None"]
    shouldReport_policy [of devRuntime "sampleResponse LOW UNKNOWN None"]
  by (simp add: production_prodRuntime production_devRuntime sampleResponse_def)

section \<open>Normalising a typed error\<close>

text \<open>
  C3. For every typed error \<open>e\<close>, of whichever class, \<open>handle\<close> returns a response whose
  message is \<open>getUserMessage e\<close> and whose category, severity, code, data and retry
  fields are those of \<open>e\<close>.
\<close>

theorem handle_typed_error:
  "message (handle rt (Typed e)) = getUserMessage e \<and>
   category (handle rt (Typed e)) = BaseError.category e \<and>
   severity (handle rt (Typed e)) = BaseError.severity e \<and>
   code (handle rt (Typed e)) = BaseError.code e \<and>
   data (handle rt (Typed e)) = BaseError.data e \<and>
   retry (handle rt (Typed e)) = BaseError.retry e"
  by (simp add: formatErrorResponse_def)

section \<open>Errors from HTTP statuses\<close>

text \<open>
  C6. \<open>createFromHttpStatus\<close> builds a validation error for 400, an authentication
  error for 401, an authorization error for 403, a not-found error for 404 (not
  retryable, with code 404), a rate-limit error for 429, a server error for every
  status from 500 on, and for every other status a plain \<open>BaseError\<close> of category
  unknown and severity medium, whose message is \<open>HTTP Error\<close> followed by the status
  when no message is given.
\<close>

theorem createFromHttpStatus_mapping:
  "(status = 400 \<longrightarrow>
      cls (createFromHttpStatus rt status msg dat) = ValidationErrorC [] \<and>
      BaseError.category (createFromHttpStatus rt status msg dat) = VALIDATION) \<and>
   (status = 401 \<longrightarrow>
      cls (createFromHttpStatus rt status msg dat) = AuthenticationErrorC \<and>
      BaseError.category (createFromHttpStatus rt status msg dat) = AUTHENTICATION) \<and>
   (status = 403 \<longrightarrow>
      cls (createFromHttpStatus rt status msg dat) = AuthorizationErrorC \<and>
      BaseError.category (createFromHttpStatus rt status msg dat) = AUTHORIZATION) \<and>
   (status = 404 \<longrightarrow>
      cls (createFromHttpStatus rt status msg dat) = NotFoundErrorC \<and>
      BaseError.retry (createFromHttpStatus rt status msg dat) = Some False \<and>
      BaseError.code (createFromHttpStatus rt status msg dat) = Some (Num 404)) \<and>
   (status = 429 \<longrightarrow>
      cls (createFromHttpStatus rt status msg dat) = RateLimitErrorC None) \<and>
   (status \<ge> 500 \<longrightarrow>
      cls (createFromHttpStatus rt status msg dat) = ServerErrorC \<and>
      BaseError.category (createFromHttpStatus rt status msg dat) = SERVER) \<and>
   (status \<notin> {400, 401, 403, 404, 429} \<and> status < 500 \<longrightarrow>
      cls (createFromHttpStatus rt status msg dat) = BaseErrorC \<and>
      BaseError.category (createFromHttpStatus rt status msg dat) = UNKNOWN \<and>
      BaseError.severity (createFromHttpStatus rt status msg dat) = MEDIUM \<and>
      (msg = None \<longrightarrow>
         JSError.message (createFromHttpStatus rt status msg dat) =
           ''HTTP Error '' @ showInt status))"
  by (simp add: createFromHttpStatus_def newValidationError_def newAuthenticationError_def
      newAuthenticationErrorAs_def newAuthorizationError_def newNotFoundError_def
      newRateLimitError_def newServerError_def newBaseError_def)

theorem createFromHttpStatus_mapping_witness:
  "cls (createFromHttpStatus devRuntime 400 None JUndefined) = ValidationErrorC [] \<and>
   cls (createFromHttpStatus devRuntime 401 None JUndefined) = AuthenticationErrorC \<and>
   cls (createFromHttpStatus devRuntime 403 None JUndefined) = AuthorizationErrorC \<and>
   cls (createFromHttpStatus devRuntime 404 None JUndefined) = NotFoundErrorC \<and>
   BaseError.retry (createFromHttpStatus devRuntime 404 None JUndefined) = Some False \<and>
   BaseError.code (createFromHttpStatus devRuntime 404 None JUndefined) = Some (Num 404) \<and>
   cls (createFromHttpStatus devRuntime 429 None JUndefined) = RateLimitErrorC None \<and>
   cls (createFromHttpStatus devRuntime 503 None JUndefined) = ServerErrorC \<and>
   cls (createFromHttpStatus devRuntime 418 None JUndefined) = BaseErrorC \<and>
   JSError.message (createFromHttpStatus devRuntime 418 None JUndefined) = ''HTTP Error 418''"
  using createFromHttpStatus_mapping [of 400 devRuntime None JUndefined]
    createFromHttpStatus_mapping [of 401 devRuntime None JUndefined]
    createFromHttpStatus_mapping [of 403 devRuntime None JUndefined]
    createFromHttpStatus_mapping [of 404 devRuntime None JUndefined]
    createFromHttpStatus_mapping [of 429 devRuntime None JUndefined]
    createFromHttpStatus_mapping [of 503 devRuntime None JUndefined]
    createFromHttpStatus_mapping [of 418 devRuntime None JUndefined]
  by (simp add: showInt_418)

section \<open>Classifying a native error by its message\<close>

lemma strIncludes_iff_sublist: "strIncludes s p \<longleftrightarrow> sublist p s"
  by (induction s) (simp_all add: sublist_Cons_right)

lemma sublist_map_iff:
  "sublist w (map f s) \<longleftrightarrow> (\<exists>u. sublist u s \<and> map f u = w)"
proof
  assume "sublist w (map f s)"
  then obtain ps ss where "map f s = ps @ w @ ss"
    by (auto simp: sublist_def)
  then have "\<exists>us vs. s = us @ vs \<and> ps = map f us \<and> w @ ss = map f vs"
    by (simp only: map_eq_append_conv)
  then obtain a vs where a: "s = a @ vs" "w @ ss = map f vs"
    by blast
  from a(2) have "\<exists>b c. vs = b @ c \<and> w = map f b \<and> ss = map f c"
    by (simp only: append_eq_map_conv)
  then obtain b c where "vs = b @ c" "map f b = w"
    by auto
  with a(1) have "s = a @ b @ c" "map f b = w" by simp_all
  then show "\<exists>u. sublist u s \<and> map f u = w"
    by (auto simp: sublist_def)
next
  assume "\<exists>u. sublist u s \<and> map f u = w"
  then obtain u ps ss where "s = ps @ u @ ss" "map f u = w"
    by (auto simp: sublist_def)
  then have "map f s = map f ps @ w @ map f ss" by simp
  then show "sublist w (map f s)"
    unfolding sublist_def by blast
qed

lemma mentions_any_case:
  "mentions msg w \<longleftrightarrow> (\<exists>u. sublist u msg \<and> toLowerCase u = w)"
  by (simp add: mentions_def toLowerCase_def sublist_map_iff)

text \<open>
  C2. For a native error (not a typed one) \<open>handle\<close> decides category, severity and
  retry by a case-insensitive substring scan of the message, the first match winning:
  network, fetch or connection give network and high; else timeout or timed out give
  network and medium; else auth, login or permission give authentication and high, with
  retry false; else validate or invalid give validation and low; else server or 500
  give server and high; else unknown and medium. Retry is true in every branch but the
  authentication one.
\<close>

theorem handle_standard_error_classification:
  "(let m = JSError.message e; r = handle rt (Plain e) in
      (category r, severity r, retry r) =
        (if mentions m ''network'' \<or> mentions m ''fetch'' \<or> mentions m ''connection''
         then (NETWORK, HIGH, Some True)
         else if mentions m ''timeout'' \<or> mentions m ''timed out''
         then (NETWORK, MEDIUM, Some True)
         else if mentions m ''auth'' \<or> mentions m ''login'' \<or> mentions m ''permission''
         then (AUTHENTICATION, HIGH, Some False)
         else if mentions m ''validate'' \<or> mentions m ''invalid''
         then (VALIDATION, LOW, Some True)
         else if mentions m ''server'' \<or> mentions m ''500''
         then (SERVER, HIGH, Some True)
         else (UNKNOWN, MEDIUM, Some True)))"
  by (simp add: handleStandardError_def classify_def mentions_def strIncludes_iff_sublist Let_def)

theorem handle_standard_error_classification_witness:
  "(let r = handle devRuntime (Plain (plainError ''Network request failed''))
    in (category r, severity r, retry r)) = (NETWORK, HIGH, Some True) \<and>
   (let r = handle devRuntime (Plain (plainError ''Auth server timeout''))
    in (category r, severity r, retry r)) = (NETWORK, MEDIUM, Some True) \<and>
   (let r = handle devRuntime (Plain (plainError ''LOGIN required''))
    in (category r, severity r, retry r)) = (AUTHENTICATION, HIGH, Some False) \<and>
   (let r = handle devRuntime (Plain (plainError ''Invalid date''))
    in (category r, severity r, retry r)) = (VALIDATION, LOW, Some True) \<and>
   (let r = handle devRuntime (Plain (plainError ''Status 500''))
    in (category r, severity r, retry r)) = (SERVER, HIGH, Some True) \<and>
   (let r = handle devRuntime (Plain (plainError ''Cannot read properties of undefined''))
    in (category r, severity r, retry r)) = (UNKNOWN, MEDIUM, Some True)"
proof -
  let ?ws = "[''network'', ''fetch'', ''connection'', ''timeout'', ''timed out'', ''auth'',
    ''login'', ''permission'', ''validate'', ''invalid'', ''server'', ''500'']"
  have m1: "map (mentions ''Network request failed'') ?ws =
      [True, False, False, False, False, False, False, False, False, False, False, False]"
    by code_simp
  have m2: "map (mentions ''Auth server timeout'') ?ws =
      [False, False, False, True, False, True, False, False, False, False, True, False]"
    by code_simp
  have m3: "map (mentions ''LOGIN required'') ?ws =
      [False, False, False, False, False, False, True, False, False, False, False, False]"
    by code_simp
  have m4: "map (mentions ''Invalid date'') ?ws =
      [False, False, False, False, False, False, False, False, False, True, False, False]"
    by code_simp
  have m5: "map (mentions ''Status 500'') ?ws =
      [False, False, False, False, False, False, False, False, False, False, False, True]"
    by code_simp
  have m6: "map (mentions ''Cannot read properties of undefined'') ?ws =
      [False, False, False, False, False, False, False, False, False, False, False, False]"
    by code_simp
  show ?thesis
    using handle_standard_error_classification [of "plainError ''Network request failed''" devRuntime]
      handle_standard_error_classification [of "plainError ''Auth server timeout''" devRuntime]
      handle_standard_error_classification [of "plainError ''LOGIN required''" devRuntime]
      handle_standard_error_classification [of "plainError ''Invalid date''" devRuntime]
      handle_standard_error_classification [of "plainError ''Status 500''" devRuntime]
      handle_standard_error_classification
        [of "plainError ''Cannot read properties of undefined''" devRuntime]
      m1 m2 m3 m4 m5 m6
    by (simp add: Let_def plainError_def)
qed

section \<open>Retry with backoff\<close>

lemma retryLoop_success:
  assumes "fst (fn s) = Inr v"
  shows "retryLoop maxR initD maxD factor should fn attempts s calls slept =
    \<lparr> outcome = Inr v, world = snd (fn s), invocations = calls + 1, delays = slept \<rparr>"
  using assms by (subst retryLoop.simps) (auto split: prod.splits)

lemma retryLoop_giveup:
  assumes "fst (fn s) = Inl err" and "attempts + 1 \<ge> maxR \<or> \<not> should err (attempts + 1)"
  shows "retryLoop maxR initD maxD factor should fn attempts s calls slept =
    \<lparr> outcome = Inl err, world = snd (fn s), invocations = calls + 1, delays = slept \<rparr>"
  using assms by (subst retryLoop.simps) (auto split: prod.splits)

lemma retryLoop_again:
  assumes "fst (fn s) = Inl err" and "attempts + 1 < maxR" and "should err (attempts + 1)"
  shows "retryLoop maxR initD maxD factor should fn attempts s calls slept =
    retryLoop maxR initD maxD factor should fn (attempts + 1) (snd (fn s)) (calls + 1)
      (slept @ [min (initD * factor ^ nat attempts) maxD])"
  using assms by (subst retryLoop.simps) (auto split: prod.splits)

text \<open>
  C4. When the operation fails on every call, \<open>retryWithBackoff\<close> with
  \<open>maxRetries = 3\<close> and the default \<open>shouldRetry\<close> calls it exactly three times and
  then throws the failure of the third call as it is.
\<close>

theorem retry_exhausted_rethrows_third_failure:
  fixes fn :: "'s \<Rightarrow> ('e + 'a) \<times> 's"
  assumes "\<forall>s. isl (fst (fn s))"
  shows "(let r1 = fn s0; r2 = fn (snd r1); r3 = fn (snd r2);
              run = retryWithBackoff fn
                \<lparr> maxRetries = Some 3, initialDelayMs = None, maxDelayMs = None,
                  backoffFactor = None, shouldRetry = None \<rparr> s0
          in invocations run = 3 \<and> isl (outcome run) \<and> outcome run = fst r3 \<and>
             world run = snd r3 \<and> delays run = [1000, 2000])"
proof -
  obtain e1 where e1: "fst (fn s0) = Inl e1"
    using assms by (metis isl_def)
  obtain e2 where e2: "fst (fn (snd (fn s0))) = Inl e2"
    using assms by (metis isl_def)
  obtain e3 where e3: "fst (fn (snd (fn (snd (fn s0))))) = Inl e3"
    using assms by (metis isl_def)
  let ?T = "\<lambda>(error :: 'e) (attempts :: int). True"
  have "retryLoop 3 1000 10000 2 ?T fn 0 s0 0 [] =
        retryLoop 3 1000 10000 2 ?T fn 1 (snd (fn s0)) 1 [1000]"
    using retryLoop_again [of fn s0 e1 0 3 ?T 1000 10000 2 0 "[]"] e1 by simp
  also have "\<dots> = retryLoop 3 1000 10000 2 ?T fn 2 (snd (fn (snd (fn s0)))) 2 [1000, 2000]"
    using retryLoop_again [of fn "snd (fn s0)" e2 1 3 ?T 1000 10000 2 1 "[1000]"] e2 by (simp add: numeral_2_eq_2)
  also have "\<dots> = \<lparr> outcome = Inl e3, world = snd (fn (snd (fn (snd (fn s0))))),
      invocations = 3, delays = [1000, 2000] \<rparr>"
    using retryLoop_giveup [of fn "snd (fn (snd (fn s0)))" e3 3 2 ?T 1000 10000 2 2 "[1000, 2000]"] e3 by (simp add: numeral_2_eq_2 numeral_3_eq_3)
  finally show ?thesis
    using e3 by (simp add: retryWithBackoff_def Let_def)
qed

theorem retry_exhausted_rethrows_third_failure_witness:
  "(\<forall>s. isl (fst (alwaysFails s))) \<and>
   (let run = retryWithBackoff alwaysFails
       \<lparr> maxRetries = Some 3, initialDelayMs = None, maxDelayMs = None,
         backoffFactor = None, shouldRetry = None \<rparr> 0
    in invocations run = 3 \<and> outcome run = Inl 3 \<and> world run = 3)"
proof -
  have h: "\<forall>s. isl (fst (alwaysFails s))"
    by (simp add: alwaysFails_def)
  show ?thesis
    using h retry_exhausted_rethrows_third_failure [OF h, of 0]
    by (simp add: alwaysFails_def Let_def)
qed

text \<open>
  C5. When the operation fails on its first two calls and succeeds on the third,
  \<open>retryWithBackoff\<close> with \<open>maxRetries = 5\<close> and an always-true \<open>shouldRetry\<close>
  returns the value of the third call, having called the operation exactly three times.
  In general, whatever the attempt count and the options, a call that succeeds ends
  the loop with its value: the operation is not called again.
\<close>

theorem retry_returns_first_success:
  fixes fn :: "'s \<Rightarrow> ('e + 'a) \<times> 's"
  shows
  "(fst (fn s0) = Inl e1 \<and> fst (fn (snd (fn s0))) = Inl e2 \<and>
    fst (fn (snd (fn (snd (fn s0))))) = Inr v \<longrightarrow>
      retryWithBackoff fn
        \<lparr> maxRetries = Some 5, initialDelayMs = None, maxDelayMs = None,
          backoffFactor = None, shouldRetry = Some (\<lambda>error attempts. True) \<rparr> s0 =
      \<lparr> outcome = Inr v, world = snd (fn (snd (fn (snd (fn s0))))), invocations = 3,
        delays = [1000, 2000] \<rparr>) \<and>
   (fst (fn s) = Inr v' \<longrightarrow>
      retryLoop maxR initD maxD factor should fn attempts s calls slept =
      \<lparr> outcome = Inr v', world = snd (fn s), invocations = calls + 1, delays = slept \<rparr>)"
proof (intro conjI impI)
  assume a: "fst (fn s0) = Inl e1 \<and> fst (fn (snd (fn s0))) = Inl e2 \<and>
    fst (fn (snd (fn (snd (fn s0))))) = Inr v"
  let ?T = "\<lambda>(error :: 'e) (attempts :: int). True"
  have "retryLoop 5 1000 10000 2 ?T fn 0 s0 0 [] =
        retryLoop 5 1000 10000 2 ?T fn 1 (snd (fn s0)) 1 [1000]"
    using a retryLoop_again [of fn s0 e1 0 5 ?T 1000 10000 2 0 "[]"] by simp
  also have "\<dots> = retryLoop 5 1000 10000 2 ?T fn 2 (snd (fn (snd (fn s0)))) 2 [1000, 2000]"
    using a retryLoop_again [of fn "snd (fn s0)" e2 1 5 ?T 1000 10000 2 1 "[1000]"]
    by (simp add: numeral_2_eq_2)
  also have "\<dots> = \<lparr> outcome = Inr v, world = snd (fn (snd (fn (snd (fn s0))))),
      invocations = 3, delays = [1000, 2000] \<rparr>"
    using a retryLoop_success [of fn "snd (fn (snd (fn s0)))" v 5 1000 10000 2 ?T 2 2 "[1000, 2000]"]
    by (simp add: numeral_2_eq_2 numeral_3_eq_3)
  finally show "retryWithBackoff fn
        \<lparr> maxRetries = Some 5, initialDelayMs = None, maxDelayMs = None,
          backoffFactor = None, shouldRetry = Some (\<lambda>error attempts. True) \<rparr> s0 =
      \<lparr> outcome = Inr v, world = snd (fn (snd (fn (snd (fn s0))))), invocations = 3,
        delays = [1000, 2000] \<rparr>"
    by (simp add: retryWithBackoff_def)
next
  assume "fst (fn s) = Inr v'"
  then show "retryLoop maxR initD maxD factor should fn attempts s calls slept =
      \<lparr> outcome = Inr v', world = snd (fn s), invocations = calls + 1, delays = slept \<rparr>"
    by (rule retryLoop_success)
qed

theorem retry_returns_first_success_witness:
  "fst (succeedsOnThird 0) = Inl 1 \<and> fst (succeedsOnThird 1) = Inl 2 \<and>
   fst (succeedsOnThird 2) = Inr ''done'' \<and>
   retryWithBackoff succeedsOnThird
     \<lparr> maxRetries = Some 5, initialDelayMs = None, maxDelayMs = None,
       backoffFactor = None, shouldRetry = Some (\<lambda>error attempts. True) \<rparr> 0 =
   \<lparr> outcome = Inr ''done'', world = 3, invocations = 3, delays = [1000, 2000] \<rparr>"
  using retry_returns_first_success [of succeedsOnThird 0 1 2 "''done''"]
  by (simp add: succeedsOnThird_def)

section \<open>The global error store\<close>

lemma take_append_take: "take n (xs @ take n ys) = take n (xs @ ys)"
  by (simp add: min_def)

lemma errorHistory_setError_Some:
  "errorHistory (setError (Some e) st) = take 10 (e # errorHistory st)"
  by (simp add: setError_def addToHistory_def)

lemma setErrors_snoc: "setErrors (es @ [e]) st = setError (Some e) (setErrors es st)"
  by (simp add: setErrors_def)

lemma errorHistory_setErrors:
  "es \<noteq> [] \<Longrightarrow> errorHistory (setErrors es st) = take 10 (rev es @ errorHistory st)"
proof (induction es rule: rev_induct)
  case Nil
  then show ?case by simp
next
  case (snoc e es)
  show ?case
  proof (cases "es = []")
    case True
    then show ?thesis
      by (simp add: setErrors_def errorHistory_setError_Some)
  next
    case False
    then have "errorHistory (setErrors es st) = take 10 (rev es @ errorHistory st)"
      by (rule snoc.IH)
    then have "errorHistory (setErrors (es @ [e]) st) =
        take 10 ([e] @ take 10 (rev es @ errorHistory st))"
      by (simp add: setErrors_snoc errorHistory_setError_Some)
    also have "\<dots> = take 10 ([e] @ (rev es @ errorHistory st))"
      by (rule take_append_take)
    finally show ?thesis by simp
  qed
qed

text \<open>
  C7. \<open>setError e\<close> makes \<open>e\<close> the current error and the error visible exactly when
  \<open>e\<close> is not null; an error that is not null is also put at the front of the
  history, which is cut to its ten first entries. Hence after eleven \<open>setError\<close> calls
  with errors \<open>es\<close> the history has length 10, starts with the eleventh error and ends
  with the second; the first is gone when the errors are distinct.
\<close>

theorem setError_register:
  "currentError (setError e st) = e \<and>
   isErrorVisible (setError e st) = (e \<noteq> None) \<and>
   errorHistory (setError None st) = errorHistory st \<and>
   errorHistory (setError (Some x) st) = take 10 (x # errorHistory st) \<and>
   (length es = 11 \<longrightarrow>
      length (errorHistory (setErrors es st)) = 10 \<and>
      errorHistory (setErrors es st) ! 0 = es ! 10 \<and>
      errorHistory (setErrors es st) ! 9 = es ! 1 \<and>
      (distinct es \<longrightarrow> es ! 0 \<notin> set (errorHistory (setErrors es st))))"
proof (intro conjI impI)
  assume len: "length es = 11"
  then have ne: "es \<noteq> []" by auto
  have h: "errorHistory (setErrors es st) = take 10 (rev es)"
    using len by (simp add: errorHistory_setErrors [OF ne])
  show "length (errorHistory (setErrors es st)) = 10"
    using len by (simp add: h)
  show "errorHistory (setErrors es st) ! 0 = es ! 10"
    using len by (simp add: h rev_nth)
  show "errorHistory (setErrors es st) ! 9 = es ! 1"
    using len by (simp add: h rev_nth)
  assume d: "distinct es"
  obtain x xs where es: "es = x # xs"
    using ne by (cases es) auto
  have "take 10 (rev es) = rev xs"
    using len es by simp
  with h have "set (errorHistory (setErrors es st)) = set xs"
    by simp
  moreover have "es ! 0 \<notin> set xs"
    using d es by simp
  ultimately show "es ! 0 \<notin> set (errorHistory (setErrors es st))"
    by simp
qed (simp_all add: setError_def addToHistory_def Let_def split: option.splits)

lemma distinct_elevenErrors: "distinct elevenErrors"
  by (simp add: elevenErrors_def numbered_def sampleResponse_def)

theorem setError_register_witness:
  "length elevenErrors = 11 \<and> distinct elevenErrors \<and>
   currentError (setError (Some (numbered 1)) initialErrorState) = Some (numbered 1) \<and>
   isErrorVisible (setError (Some (numbered 1)) initialErrorState) \<and>
   \<not> isErrorVisible (setError None initialErrorState) \<and>
   length (errorHistory (setErrors elevenErrors initialErrorState)) = 10 \<and>
   errorHistory (setErrors elevenErrors initialErrorState) ! 0 = numbered 11 \<and>
   errorHistory (setErrors elevenErrors initialErrorState) ! 9 = numbered 2 \<and>
   numbered 1 \<notin> set (errorHistory (setErrors elevenErrors initialErrorState))"
proof -
  have l: "length elevenErrors = 11"
    by (simp add: elevenErrors_def)
  have n: "elevenErrors ! 0 = numbered 1" "elevenErrors ! 1 = numbered 2"
    "elevenErrors ! 10 = numbered 11"
    by (simp_all add: elevenErrors_def)
  show ?thesis
    using setError_register [of "Some (numbered 1)" initialErrorState undefined elevenErrors]
      setError_register [of None initialErrorState undefined elevenErrors]
      l distinct_elevenErrors n
    by simp
qed

section \<open>The error boundary\<close>

text \<open>
  C8. From a stable state, where the children are rendered, a throw in the children
  takes the boundary to the failed state, which holds exactly \<open>handle\<close> of the thrown
  value and renders the fallback; \<open>reset\<close> takes it back to a stable state with no
  error held, where the children are rendered again; and a throw after the reset is
  caught again.
\<close>

theorem boundary_lifecycle:
  assumes "\<not> hasError st"
  shows "render props st = Node (children props) \<and>
   hasError (catchError rt raw st) \<and>
   error (catchError rt raw st) = Some (handle rt raw) \<and>
   render props (catchError rt raw st) =
     (case fallback props of
        Some (FallbackFn f) \<Rightarrow> Node (f (handle rt raw))
      | Some (FallbackNode n) \<Rightarrow> Node n
      | None \<Rightarrow>
          DefaultPanel (if message (handle rt raw) = [] then ''An unexpected error occurred.''
                        else message (handle rt raw))) \<and>
   \<not> hasError (reset (catchError rt raw st)) \<and>
   error (reset (catchError rt raw st)) = None \<and>
   render props (reset (catchError rt raw st)) = Node (children props) \<and>
   hasError (catchError rt' raw' (reset (catchError rt raw st))) \<and>
   error (catchError rt' raw' (reset (catchError rt raw st))) = Some (handle rt' raw')"
  using assms
  by (simp add: render_def catchError_def getDerivedStateFromError_def reset_def)

theorem boundary_lifecycle_witness:
  "\<not> hasError initialBoundaryState \<and>
   render sampleProps initialBoundaryState = Node ''page'' \<and>
   render sampleProps (catchError devRuntime (Thrown (JString ''boom'')) initialBoundaryState) =
     DefaultPanel ''boom'' \<and>
   render sampleProps
     (reset (catchError devRuntime (Thrown (JString ''boom'')) initialBoundaryState)) =
     Node ''page'' \<and>
   error (catchError laterRuntime (Thrown JNull)
     (reset (catchError devRuntime (Thrown (JString ''boom'')) initialBoundaryState))) =
     Some (handle laterRuntime (Thrown JNull))"
proof -
  have h: "\<not> hasError initialBoundaryState"
    by (simp add: initialBoundaryState_def)
  show ?thesis
    using h boundary_lifecycle [OF h, of sampleProps devRuntime "Thrown (JString ''boom'')"
        laterRuntime "Thrown JNull"]
    by (simp add: sampleProps_def handleStringError_def)
qed

section \<open>The message of a normalised error\<close>

lemma showNat_nonempty: "showNat n \<noteq> []"
  by (subst showNat.simps) simp

lemma strOr_empty_iff: "strOr x d = [] \<longleftrightarrow> d = [] \<and> strOr x [] = []"
  by (cases x) auto

text \<open>
  The message can be empty: \<open>handle\<close> passes an empty string, and the empty message of a
  native error, through.
\<close>

theorem handle_message_empty_counterexample:
  "message (handle devRuntime (Thrown (JString ''''))) = [] \<and>
   message (handle devRuntime (Plain (plainError ''''))) = []"
  by (simp add: handleStringError_def handleStandardError_def plainError_def split: prod.splits)

text \<open>
  C9, amended. The message \<open>handle\<close> returns is not empty, except for the inputs with
  no text to show (\<open>blankInput\<close>): an empty string, a native error with an empty
  message, and a typed error with an empty message whose \<open>getUserMessage\<close> shows that
  message. For these it is empty.
\<close>

theorem handle_message_nonempty:
  "message (handle rt raw) \<noteq> [] \<longleftrightarrow> \<not> blankInput raw"
proof (cases raw)
  case (Typed e)
  then show ?thesis
    by (cases "cls e")
      (auto simp add: blankInput_def formatErrorResponse_def getUserMessage_def
        strOr_empty_iff [of _ "JSError.message e"] showNat_nonempty split: option.splits)
next
  case (Plain e)
  then show ?thesis
    by (simp add: blankInput_def handleStandardError_def split: prod.splits)
next
  case (Thrown v)
  then show ?thesis
    by (cases v) (simp_all add: blankInput_def handleStringError_def handleUnknownError_def)
qed

theorem handle_message_nonempty_witness:
  "\<not> blankInput (Thrown JUndefined) \<and>
   message (handle devRuntime (Thrown JUndefined)) = ''An unknown error occurred'' \<and>
   \<not> blankInput (Plain (plainError ''Failed to fetch'')) \<and>
   message (handle devRuntime (Plain (plainError ''Failed to fetch''))) \<noteq> [] \<and>
   \<not> blankInput (Typed (newServerError devRuntime (Some '''') None JUndefined None)) \<and>
   message (handle devRuntime (Typed (newServerError devRuntime (Some '''') None JUndefined None)))
     \<noteq> [] \<and>
   blankInput (Typed (newValidationError devRuntime (Some '''') (Some [(''email'', [])]) None
     JUndefined None)) \<and>
   message (handle devRuntime (Typed (newValidationError devRuntime (Some '''')
     (Some [(''email'', [])]) None JUndefined None))) = []"
  using handle_message_nonempty [of devRuntime "Thrown JUndefined"]
    handle_message_nonempty [of devRuntime "Plain (plainError ''Failed to fetch'')"]
    handle_message_nonempty
      [of devRuntime "Typed (newServerError devRuntime (Some '''') None JUndefined None)"]
    handle_message_nonempty
      [of devRuntime "Typed (newValidationError devRuntime (Some '''') (Some [(''email'', [])])
        None JUndefined None)"]
  by (simp add: blankInput_def plainError_def newServerError_def newValidationError_def
      newBaseError_def handleUnknownError_def)

section \<open>The timestamp of a normalised error\<close>

text \<open>
  A typed error created at 10:00:00 and handled at 10:00:05 is given the timestamp
  10:00:00, not the time of the call of \<open>handle\<close>.
\<close>

theorem handle_timestamp_counterexample:
  "timestamp (handle laterRuntime (Typed (newServerError devRuntime None None JUndefined None))) =
     ''2024-05-01T10:00:00.000Z'' \<and>
   isoNow laterRuntime = ''2024-05-01T10:00:05.000Z'' \<and>
   timestamp (handle laterRuntime (Typed (newServerError devRuntime None None JUndefined None))) \<noteq>
     isoNow laterRuntime"
  by (simp add: formatErrorResponse_def newServerError_def newBaseError_def devRuntime_def
      laterRuntime_def)

text \<open>
  C10, amended. For a native error, a string and any other thrown value, the timestamp
  \<open>handle\<close> returns is the ISO string of the clock at the moment \<open>handle\<close> runs. For a
  typed error it is the timestamp the error carries, which its constructor set to the
  ISO string of the clock at the moment the error was created.
\<close>

theorem handle_timestamp:
  "timestamp (handle rt (Typed e)) = BaseError.timestamp e \<and>
   timestamp (handle rt (Plain e')) = isoNow rt \<and>
   timestamp (handle rt (Thrown v)) = isoNow rt \<and>
   BaseError.timestamp (newBaseError rt0 c msg cat sev cd dat rtr) = isoNow rt0"
  by (cases v)
    (simp_all add: formatErrorResponse_def handleStandardError_def handleStringError_def
      handleUnknownError_def newBaseError_def split: prod.splits)

theorem handle_timestamp_witness:
  "timestamp (handle laterRuntime (Typed (newBaseError devRuntime BaseErrorC ''x'' None None None
      JUndefined None))) = isoNow devRuntime \<and>
   timestamp (handle laterRuntime (Plain (plainError ''x''))) = isoNow laterRuntime \<and>
   timestamp (handle laterRuntime (Thrown (JString ''x''))) = isoNow laterRuntime"
  using handle_timestamp [of laterRuntime
      "newBaseError devRuntime BaseErrorC ''x'' None None None JUndefined None"
      "plainError ''x''" "JString ''x''" devRuntime BaseErrorC "''x''" None None None JUndefined None]
  by simp

end
